theory Spec2Isabelle
  imports Complex_Main "HOL-Library.Sublist"
begin

section \<open>JavaScript values\<close>

text \<open>
  The metadata service (\<^verbatim>\<open>services/gemini\<close>) builds its result from whatever
  \<^verbatim>\<open>JSON.parse\<close> returns, so the fields of a result are JavaScript values, not only
  strings: the TypeScript interface \<^verbatim>\<open>RealVideoMetadata\<close> is erased at run time.
  A value is what \<^verbatim>\<open>JSON.parse\<close> can produce; \<^verbatim>\<open>undefined\<close> is \<open>None\<close> of
  \<open>js_value option\<close>. A number is a finite double (its value as a rational) or an
  infinity (\<^verbatim>\<open>JSON.parse("1e999")\<close>); \<^verbatim>\<open>JSON.parse\<close> never gives NaN.
  An object is the list of its own properties, each key once.
\<close>

datatype js_number = Finite rat | Infinity bool

datatype js_value =
    JNull
  | JBool bool
  | JNumber js_number
  | JString string
  | JArray "js_value list"
  | JObject "(string \<times> js_value) list"

datatype js_error = SyntaxError | TypeError | Error string

text \<open>ToBoolean: the falsy values are null, false, 0 and the empty string.\<close>

fun truthy :: "js_value \<Rightarrow> bool" where
  "truthy JNull = False"
| "truthy (JBool b) = b"
| "truthy (JNumber n) = (n \<noteq> Finite 0)"
| "truthy (JString s) = (s \<noteq> [])"
| "truthy (JArray xs) = True"
| "truthy (JObject kvs) = True"

text \<open>The expression \<^verbatim>\<open>x || d\<close>, where \<open>x\<close> may be \<^verbatim>\<open>undefined\<close>.\<close>

definition or_default :: "js_value option \<Rightarrow> js_value \<Rightarrow> js_value" where
  "or_default x d = (case x of None \<Rightarrow> d | Some v \<Rightarrow> if truthy v then v else d)"

text \<open>
  The property read \<^verbatim>\<open>data.k\<close> for the names read by the service (\<^verbatim>\<open>title\<close>,
  \<^verbatim>\<open>author\<close>, \<^verbatim>\<open>views\<close>, \<^verbatim>\<open>duration\<close>, \<^verbatim>\<open>summary\<close>, \<^verbatim>\<open>estimatedSizes\<close> and the
  quality keys), none of which is a property of a built-in prototype: on \<^verbatim>\<open>null\<close> it
  throws a TypeError, on an object it is the own property or \<^verbatim>\<open>undefined\<close>, on a
  boolean, number, string or array it is \<^verbatim>\<open>undefined\<close>.
\<close>

definition get_prop :: "js_value \<Rightarrow> string \<Rightarrow> js_error + js_value option" where
  "get_prop data k =
     (case data of
        JNull \<Rightarrow> Inl TypeError
      | JObject kvs \<Rightarrow> Inr (map_of kvs k)
      | _ \<Rightarrow> Inr None)"

text \<open>Sequencing of evaluations that may throw.\<close>

definition and_then :: "js_error + 'a \<Rightarrow> ('a \<Rightarrow> js_error + 'b) \<Rightarrow> js_error + 'b" where
  "and_then r f = (case r of Inl err \<Rightarrow> Inl err | Inr v \<Rightarrow> f v)"

text \<open>\<^verbatim>\<open>String.prototype.includes\<close>: does the pattern occur in the string?\<close>

fun includes_str :: "string \<Rightarrow> string \<Rightarrow> bool" where
  "includes_str [] pat = (pat = [])"
| "includes_str (c # cs) pat = (prefix pat (c # cs) \<or> includes_str cs pat)"

section \<open>The fallback metadata\<close>

record RealVideoMetadata =
  title :: js_value
  author :: js_value
  views :: js_value
  duration :: js_value
  summary :: js_value
  estimatedSizes :: js_value

definition getFallbackMetadata :: "string \<Rightarrow> RealVideoMetadata" where
  "getFallbackMetadata url =
     (let isYoutube = (includes_str url ''youtube.com'' \<or> includes_str url ''youtu.be'');
          isVimeo = includes_str url ''vimeo.com''
      in \<lparr> title = JString ''High-Definition Media Stream'',
           author = JString (if isYoutube then ''YouTube Creator''
                             else if isVimeo then ''Vimeo Pro User'' else ''Verified Source''),
           views = JString ''Live Stream'',
           duration = JString ''Detected'',
           summary = JString ''Real-time extraction bridge established. Securely pulling media packets from source CDN nodes.'',
           estimatedSizes = JObject
             [(''2160p'', JString ''1.4 GB''),
              (''1080p'', JString ''450 MB''),
              (''720p'', JString ''210 MB''),
              (''360p'', JString ''65 MB''),
              (''audio'', JString ''8.5 MB'')] \<rparr>)"

section \<open>Promises on the timer's clock\<close>

text \<open>
  A promise either never settles (\<open>None\<close>) or settles at a time, in milliseconds on the
  clock that starts when \<^verbatim>\<open>fetchRealVideoMetadata\<close> is called, fulfilled with a value
  or rejected with an error. Synchronous code takes no time on this clock.
\<close>

datatype 'a settlement = Fulfilled 'a | Rejected js_error

type_synonym 'a promise = "(nat \<times> 'a settlement) option"

text \<open>
  \<^verbatim>\<open>Promise.race([p, q])\<close> settles as the first of \<open>p\<close> and \<open>q\<close> to settle. When both
  settle at the same time the model lets the first element of the array win; the
  theorems about a query that settles first assume a strictly earlier time, so they do
  not depend on this choice.
\<close>

definition Promise_race :: "'a promise \<Rightarrow> 'a promise \<Rightarrow> 'a promise" where
  "Promise_race p q =
     (case p of
        None \<Rightarrow> q
      | Some (tp, sp) \<Rightarrow>
          (case q of
             None \<Rightarrow> p
           | Some (tq, sq) \<Rightarrow> if tp \<le> tq then p else q))"

section \<open>The resolver\<close>

text \<open>
  The outcome of the one call \<^verbatim>\<open>ai.models.generateContent(...)\<close>: it throws at once,
  or it returns a promise of a response. Of a response the service reads only
  \<^verbatim>\<open>response.text\<close>, a string or \<^verbatim>\<open>undefined\<close>.
\<close>

datatype GenerateContentResponse = Response (response_text: "string option")

datatype 'a call = Throws js_error | Returns "'a promise"

definition TIMEOUT_MS :: nat where
  "TIMEOUT_MS = 25000"

definition timeoutPromise :: "'a promise" where
  "timeoutPromise = Some (TIMEOUT_MS, Rejected (Error ''Request timed out''))"

text \<open>\<^verbatim>\<open>response.text || '{}'\<close>\<close>

definition text_or_default :: "GenerateContentResponse \<Rightarrow> string" where
  "text_or_default response =
     (case response_text response of
        None \<Rightarrow> ''{}''
      | Some s \<Rightarrow> if s = [] then ''{}'' else s)"

text \<open>The object literal returned in the \<^verbatim>\<open>try\<close> block, its fields read in order.\<close>

definition normalize_data :: "js_value \<Rightarrow> string \<Rightarrow> js_error + RealVideoMetadata" where
  "normalize_data data url =
     and_then (get_prop data ''title'') (\<lambda>t.
     and_then (get_prop data ''author'') (\<lambda>a.
     and_then (get_prop data ''views'') (\<lambda>v.
     and_then (get_prop data ''duration'') (\<lambda>d.
     and_then (get_prop data ''summary'') (\<lambda>s.
     and_then (get_prop data ''estimatedSizes'') (\<lambda>e.
       Inr \<lparr> title = or_default t (JString ''Found Media Content''),
             author = or_default a (JString ''Source Verified''),
             views = or_default v (JString ''N/A''),
             duration = or_default d (JString ''00:00''),
             summary = or_default s (JString ''Media analysis complete.''),
             estimatedSizes = or_default e (estimatedSizes (getFallbackMetadata url)) \<rparr>))))))"

text \<open>
  The statements of the \<^verbatim>\<open>try\<close> block after the \<^verbatim>\<open>await\<close>. \<open>JSON_parse\<close> is
  the built-in \<^verbatim>\<open>JSON.parse\<close>, a parameter of the model: it throws (\<open>Inl\<close>) or
  returns a value.
\<close>

definition parse_response ::
  "(string \<Rightarrow> js_error + js_value) \<Rightarrow> GenerateContentResponse \<Rightarrow> string
     \<Rightarrow> js_error + RealVideoMetadata" where
  "parse_response JSON_parse response url =
     and_then (JSON_parse (text_or_default response)) (\<lambda>data. normalize_data data url)"

text \<open>
  The immediately invoked async function: every error of its \<^verbatim>\<open>try\<close> block, a
  synchronous throw of the call included, is caught (and logged with
  \<^verbatim>\<open>console.warn\<close>) and turned into the fallback metadata; while the awaited promise
  is pending the function is pending.
\<close>

definition fetchPromise ::
  "(string \<Rightarrow> js_error + js_value) \<Rightarrow> GenerateContentResponse call \<Rightarrow> string
     \<Rightarrow> RealVideoMetadata promise" where
  "fetchPromise JSON_parse generateContent url =
     (case generateContent of
        Throws err \<Rightarrow> Some (0, Fulfilled (getFallbackMetadata url))
      | Returns None \<Rightarrow> None
      | Returns (Some (t, Rejected err)) \<Rightarrow> Some (t, Fulfilled (getFallbackMetadata url))
      | Returns (Some (t, Fulfilled response)) \<Rightarrow>
          (case parse_response JSON_parse response url of
             Inl err \<Rightarrow> Some (t, Fulfilled (getFallbackMetadata url))
           | Inr metadata \<Rightarrow> Some (t, Fulfilled metadata)))"

text \<open>
  The race against the timer, in a \<^verbatim>\<open>try\<close> whose \<^verbatim>\<open>catch\<close> (logging with
  \<^verbatim>\<open>console.error\<close>) returns the fallback metadata.
\<close>

definition fetchRealVideoMetadata ::
  "(string \<Rightarrow> js_error + js_value) \<Rightarrow> GenerateContentResponse call \<Rightarrow> string
     \<Rightarrow> RealVideoMetadata promise" where
  "fetchRealVideoMetadata JSON_parse generateContent url =
     (case Promise_race (fetchPromise JSON_parse generateContent url) timeoutPromise of
        None \<Rightarrow> None
      | Some (t, Fulfilled metadata) \<Rightarrow> Some (t, Fulfilled metadata)
      | Some (t, Rejected err) \<Rightarrow> Some (t, Fulfilled (getFallbackMetadata url)))"

section \<open>Sample responses\<close>

text \<open>
  Response texts for the examples, with the values \<^verbatim>\<open>JSON.parse\<close> gives on them.
  \<open>sample_JSON_parse\<close> agrees with \<^verbatim>\<open>JSON.parse\<close> on these texts and answers
  every other text with a SyntaxError; the examples apply it to these texts and to one
  text that is not JSON. Every general theorem below holds for an arbitrary
  \<open>JSON_parse\<close>.
\<close>

definition full_text :: string where
  \<open>full_text = ''{"title":"Big Buck Bunny","author":"Blender","views":"1000","duration":"9:56","summary":"A short film.","estimatedSizes":{"2160p":"2 GB","1080p":"700 MB","720p":"300 MB","360p":"90 MB","audio":"9 MB"}}''\<close>

definition partial_text :: string where
  \<open>partial_text = ''{"title":"Big Buck Bunny","views":"1000","duration":"9:56","summary":"A short film.","estimatedSizes":{"1080p":"700 MB","720p":"300 MB","360p":"90 MB"}}''\<close>

definition one_size_text :: string where
  \<open>one_size_text = ''{"title":"Big Buck Bunny","author":"Blender","views":"1000","duration":"9:56","summary":"A short film.","estimatedSizes":{"1080p":"150MB"}}''\<close>

definition number_title_text :: string where
  \<open>number_title_text = ''{"title":42}''\<close>

definition sample_payloads :: "(string \<times> js_value) list" where
  "sample_payloads =
     [(''{}'', JObject []),
      (number_title_text, JObject [(''title'', JNumber (Finite 42))]),
      (one_size_text, JObject
         [(''title'', JString ''Big Buck Bunny''), (''author'', JString ''Blender''),
          (''views'', JString ''1000''), (''duration'', JString ''9:56''),
          (''summary'', JString ''A short film.''),
          (''estimatedSizes'', JObject [(''1080p'', JString ''150MB'')])]),
      (partial_text, JObject
         [(''title'', JString ''Big Buck Bunny''),
          (''views'', JString ''1000''), (''duration'', JString ''9:56''),
          (''summary'', JString ''A short film.''),
          (''estimatedSizes'', JObject
             [(''1080p'', JString ''700 MB''), (''720p'', JString ''300 MB''),
              (''360p'', JString ''90 MB'')])]),
      (full_text, JObject
         [(''title'', JString ''Big Buck Bunny''), (''author'', JString ''Blender''),
          (''views'', JString ''1000''), (''duration'', JString ''9:56''),
          (''summary'', JString ''A short film.''),
          (''estimatedSizes'', JObject
             [(''2160p'', JString ''2 GB''), (''1080p'', JString ''700 MB''),
              (''720p'', JString ''300 MB''), (''360p'', JString ''90 MB''),
              (''audio'', JString ''9 MB'')])])]"

definition sample_JSON_parse :: "string \<Rightarrow> js_error + js_value" where
  "sample_JSON_parse s =
     (case map_of sample_payloads s of None \<Rightarrow> Inl SyntaxError | Some v \<Rightarrow> Inr v)"

section \<open>Evaluating the samples\<close>

lemma sample_parse_empty: "sample_JSON_parse ''{}'' = Inr (JObject [])"
  by (simp add: sample_JSON_parse_def sample_payloads_def)

lemma sample_parse_number_title:
  "sample_JSON_parse number_title_text = Inr (JObject [(''title'', JNumber (Finite 42))])"
  by (simp add: sample_JSON_parse_def sample_payloads_def number_title_text_def)

lemma sample_parse_partial:
  "sample_JSON_parse partial_text = Inr (JObject
         [(''title'', JString ''Big Buck Bunny''),
          (''views'', JString ''1000''), (''duration'', JString ''9:56''),
          (''summary'', JString ''A short film.''),
          (''estimatedSizes'', JObject
             [(''1080p'', JString ''700 MB''), (''720p'', JString ''300 MB''),
              (''360p'', JString ''90 MB'')])])"
  by (simp add: sample_JSON_parse_def sample_payloads_def number_title_text_def
      one_size_text_def partial_text_def)

lemma sample_parse_bad:
  "sample_JSON_parse ''<html>Service Unavailable</html>'' = Inl SyntaxError"
  by (simp add: sample_JSON_parse_def sample_payloads_def number_title_text_def
      one_size_text_def partial_text_def full_text_def)

lemma sample_parse_full_value:
  "sample_JSON_parse full_text = Inr (JObject
         [(''title'', JString ''Big Buck Bunny''), (''author'', JString ''Blender''),
          (''views'', JString ''1000''), (''duration'', JString ''9:56''),
          (''summary'', JString ''A short film.''),
          (''estimatedSizes'', JObject
             [(''2160p'', JString ''2 GB''), (''1080p'', JString ''700 MB''),
              (''720p'', JString ''300 MB''), (''360p'', JString ''90 MB''),
              (''audio'', JString ''9 MB'')])])"
  by (simp add: sample_JSON_parse_def sample_payloads_def number_title_text_def
      one_size_text_def partial_text_def full_text_def)

lemma sample_parse_one_size:
  "sample_JSON_parse one_size_text = Inr (JObject
         [(''title'', JString ''Big Buck Bunny''), (''author'', JString ''Blender''),
          (''views'', JString ''1000''), (''duration'', JString ''9:56''),
          (''summary'', JString ''A short film.''),
          (''estimatedSizes'', JObject [(''1080p'', JString ''150MB'')])])"
  by (simp add: sample_JSON_parse_def sample_payloads_def number_title_text_def
      one_size_text_def)

lemma text_or_default_sample:
  "text_or_default (Response (Some full_text)) = full_text"
  "text_or_default (Response (Some partial_text)) = partial_text"
  "text_or_default (Response (Some one_size_text)) = one_size_text"
  "text_or_default (Response (Some number_title_text)) = number_title_text"
  by (simp_all add: text_or_default_def full_text_def partial_text_def one_size_text_def
      number_title_text_def)

section \<open>Substring search\<close>

lemma includes_str_iff: "includes_str s pat \<longleftrightarrow> (\<exists>ps ss. s = ps @ pat @ ss)"
proof (induction s)
  case Nil
  then show ?case by auto
next
  case (Cons c cs)
  show ?case
  proof
    assume "includes_str (c # cs) pat"
    then consider "prefix pat (c # cs)" | "includes_str cs pat" by auto
    then show "\<exists>ps ss. c # cs = ps @ pat @ ss"
    proof cases
      case 1
      then obtain ss where "c # cs = pat @ ss" by (auto simp: prefix_def)
      then have "c # cs = [] @ pat @ ss" by simp
      then show ?thesis by blast
    next
      case 2
      with Cons.IH obtain ps ss where "cs = ps @ pat @ ss" by blast
      then have "c # cs = (c # ps) @ pat @ ss" by simp
      then show ?thesis by blast
    qed
  next
    assume "\<exists>ps ss. c # cs = ps @ pat @ ss"
    then obtain ps ss where eq: "c # cs = ps @ pat @ ss" by blast
    show "includes_str (c # cs) pat"
    proof (cases ps)
      case Nil
      with eq have "prefix pat (c # cs)" by (simp add: prefix_def)
      then show ?thesis by simp
    next
      case (Cons p ps')
      with eq have "cs = ps' @ pat @ ss" by simp
      with Cons.IH have "includes_str cs pat" by blast
      then show ?thesis by simp
    qed
  qed
qed

section \<open>Defaults, the fallback and the race\<close>

lemma or_default_truthy: "truthy d \<Longrightarrow> truthy (or_default x d)"
  by (simp add: or_default_def split: option.split)

lemma or_default_absent: "or_default None d = d"
  by (simp add: or_default_def)

lemma or_default_kept: "truthy v \<Longrightarrow> or_default (Some v) d = v"
  by (simp add: or_default_def)

lemma truthy_not_null: "truthy v \<Longrightarrow> v \<noteq> JNull"
  by auto

lemma truthy_not_empty_string: "truthy v \<Longrightarrow> v \<noteq> JString []"
  by auto

lemma fallback_sizes:
  "estimatedSizes (getFallbackMetadata url) = JObject
     [(''2160p'', JString ''1.4 GB''), (''1080p'', JString ''450 MB''),
      (''720p'', JString ''210 MB''), (''360p'', JString ''65 MB''),
      (''audio'', JString ''8.5 MB'')]"
  by (simp add: getFallbackMetadata_def Let_def)

lemma fallback_truthy:
  "truthy (title (getFallbackMetadata url))"
  "truthy (author (getFallbackMetadata url))"
  "truthy (views (getFallbackMetadata url))"
  "truthy (duration (getFallbackMetadata url))"
  "truthy (summary (getFallbackMetadata url))"
  "truthy (estimatedSizes (getFallbackMetadata url))"
  by (simp_all add: getFallbackMetadata_def Let_def)

lemma get_prop_not_null: "data \<noteq> JNull \<Longrightarrow> \<exists>x. get_prop data k = Inr x"
  by (cases data) (simp_all add: get_prop_def)

lemma normalize_null: "normalize_data JNull url = Inl TypeError"
  by (simp add: normalize_data_def get_prop_def and_then_def)

lemma normalize_not_null:
  assumes "get_prop data ''title'' = Inr t" "get_prop data ''author'' = Inr a"
    "get_prop data ''views'' = Inr v" "get_prop data ''duration'' = Inr d"
    "get_prop data ''summary'' = Inr s" "get_prop data ''estimatedSizes'' = Inr e"
  shows "normalize_data data url =
     Inr \<lparr> title = or_default t (JString ''Found Media Content''),
           author = or_default a (JString ''Source Verified''),
           views = or_default v (JString ''N/A''),
           duration = or_default d (JString ''00:00''),
           summary = or_default s (JString ''Media analysis complete.''),
           estimatedSizes = or_default e (estimatedSizes (getFallbackMetadata url)) \<rparr>"
  using assms by (simp add: normalize_data_def and_then_def)

lemma normalize_cases:
  "normalize_data data url = Inl TypeError \<or>
   (\<exists>t a v d s e.
      get_prop data ''title'' = Inr t \<and> get_prop data ''author'' = Inr a \<and>
      get_prop data ''views'' = Inr v \<and> get_prop data ''duration'' = Inr d \<and>
      get_prop data ''summary'' = Inr s \<and> get_prop data ''estimatedSizes'' = Inr e \<and>
      normalize_data data url =
        Inr \<lparr> title = or_default t (JString ''Found Media Content''),
              author = or_default a (JString ''Source Verified''),
              views = or_default v (JString ''N/A''),
              duration = or_default d (JString ''00:00''),
              summary = or_default s (JString ''Media analysis complete.''),
              estimatedSizes = or_default e (estimatedSizes (getFallbackMetadata url)) \<rparr>)"
proof (cases "data = JNull")
  case True
  then show ?thesis by (simp add: normalize_null)
next
  case False
  then obtain t a v d s e where
    "get_prop data ''title'' = Inr t" "get_prop data ''author'' = Inr a"
    "get_prop data ''views'' = Inr v" "get_prop data ''duration'' = Inr d"
    "get_prop data ''summary'' = Inr s" "get_prop data ''estimatedSizes'' = Inr e"
    using get_prop_not_null by metis
  then show ?thesis using normalize_not_null by blast
qed

lemma normalize_truthy:
  assumes "normalize_data data url = Inr m"
  shows "truthy (title m) \<and> truthy (author m) \<and> truthy (views m) \<and> truthy (duration m) \<and>
         truthy (summary m) \<and> truthy (estimatedSizes m)"
  using normalize_cases [of data url] assms
  by (auto simp: or_default_truthy fallback_truthy)

lemma resolver_pending:
  "fetchPromise JSON_parse generateContent url = None \<Longrightarrow>
   fetchRealVideoMetadata JSON_parse generateContent url =
     Some (TIMEOUT_MS, Fulfilled (getFallbackMetadata url))"
  by (simp add: fetchRealVideoMetadata_def Promise_race_def timeoutPromise_def)

lemma resolver_late:
  "fetchPromise JSON_parse generateContent url = Some (t, s) \<Longrightarrow> TIMEOUT_MS < t \<Longrightarrow>
   fetchRealVideoMetadata JSON_parse generateContent url =
     Some (TIMEOUT_MS, Fulfilled (getFallbackMetadata url))"
  by (simp add: fetchRealVideoMetadata_def Promise_race_def timeoutPromise_def)

lemma resolver_in_time:
  "fetchPromise JSON_parse generateContent url = Some (t, Fulfilled m) \<Longrightarrow> t \<le> TIMEOUT_MS \<Longrightarrow>
   fetchRealVideoMetadata JSON_parse generateContent url = Some (t, Fulfilled m)"
  by (simp add: fetchRealVideoMetadata_def Promise_race_def timeoutPromise_def)

lemma fetchPromise_settled:
  "fetchPromise JSON_parse generateContent url = Some (t, s) \<Longrightarrow>
   s = Fulfilled (getFallbackMetadata url) \<or>
   (\<exists>response data m. generateContent = Returns (Some (t, Fulfilled response)) \<and>
      JSON_parse (text_or_default response) = Inr data \<and> normalize_data data url = Inr m \<and>
      s = Fulfilled m)"
  by (auto simp: fetchPromise_def parse_response_def and_then_def
      split: call.splits option.splits settlement.splits sum.splits)

lemma resolver_cases:
  "fetchRealVideoMetadata JSON_parse generateContent url =
     Some (TIMEOUT_MS, Fulfilled (getFallbackMetadata url)) \<or>
   (\<exists>t. t \<le> TIMEOUT_MS \<and>
      fetchRealVideoMetadata JSON_parse generateContent url =
        Some (t, Fulfilled (getFallbackMetadata url))) \<or>
   (\<exists>t response data m. t \<le> TIMEOUT_MS \<and>
      generateContent = Returns (Some (t, Fulfilled response)) \<and>
      JSON_parse (text_or_default response) = Inr data \<and> normalize_data data url = Inr m \<and>
      fetchRealVideoMetadata JSON_parse generateContent url = Some (t, Fulfilled m))"
proof (cases "fetchPromise JSON_parse generateContent url")
  case None
  then show ?thesis by (simp add: resolver_pending)
next
  case (Some ts)
  obtain t s where ts: "ts = (t, s)" by (cases ts)
  show ?thesis
  proof (cases "t \<le> TIMEOUT_MS")
    case False
    with Some ts show ?thesis by (simp add: resolver_late)
  next
    case True
    from Some ts have fp: "fetchPromise JSON_parse generateContent url = Some (t, s)" by simp
    from fetchPromise_settled [OF fp] show ?thesis
    proof
      assume "s = Fulfilled (getFallbackMetadata url)"
      with fp True have "fetchRealVideoMetadata JSON_parse generateContent url =
        Some (t, Fulfilled (getFallbackMetadata url))" by (simp add: resolver_in_time)
      with True show ?thesis by blast
    next
      assume "\<exists>response data m. generateContent = Returns (Some (t, Fulfilled response)) \<and>
        JSON_parse (text_or_default response) = Inr data \<and> normalize_data data url = Inr m \<and>
        s = Fulfilled m"
      then obtain response data m where
        g: "generateContent = Returns (Some (t, Fulfilled response))" and
        p: "JSON_parse (text_or_default response) = Inr data" and
        n: "normalize_data data url = Inr m" and s: "s = Fulfilled m" by blast
      from fp s True have "fetchRealVideoMetadata JSON_parse generateContent url =
        Some (t, Fulfilled m)" by (simp add: resolver_in_time)
      with True g p n show ?thesis by blast
    qed
  qed
qed

lemma resolver_success:
  assumes "t \<le> TIMEOUT_MS"
    and "generateContent = Returns (Some (t, Fulfilled response))"
    and "JSON_parse (text_or_default response) = Inr data"
    and "normalize_data data url = Inr m"
  shows "fetchRealVideoMetadata JSON_parse generateContent url = Some (t, Fulfilled m)"
proof -
  from assms(2-4) have "fetchPromise JSON_parse generateContent url = Some (t, Fulfilled m)"
    by (simp add: fetchPromise_def parse_response_def and_then_def)
  with assms(1) show ?thesis by (simp add: resolver_in_time)
qed

lemma get_prop_object: "get_prop (JObject kvs) k = Inr (map_of kvs k)"
  by (simp add: get_prop_def)

lemma or_default_cases:
  "(\<forall>v. x = Some v \<longrightarrow> \<not> truthy v) \<Longrightarrow> or_default x d = d"
  "x = Some v \<Longrightarrow> truthy v \<Longrightarrow> or_default x d = v"
  by (auto simp: or_default_def split: option.split)

lemma or_default_choice: "or_default x d = d \<or> x = Some (or_default x d)"
  by (simp add: or_default_def split: option.split)

lemma normalize_sizes:
  assumes "normalize_data data url = Inr m"
  shows "estimatedSizes m = estimatedSizes (getFallbackMetadata url) \<or>
         get_prop data ''estimatedSizes'' = Inr (Some (estimatedSizes m))"
proof -
  consider (null) "normalize_data data url = Inl TypeError"
    | (ok) t a v d s e where "get_prop data ''estimatedSizes'' = Inr e"
        "normalize_data data url =
          Inr \<lparr> title = or_default t (JString ''Found Media Content''),
              author = or_default a (JString ''Source Verified''),
              views = or_default v (JString ''N/A''),
              duration = or_default d (JString ''00:00''),
              summary = or_default s (JString ''Media analysis complete.''),
              estimatedSizes = or_default e (estimatedSizes (getFallbackMetadata url)) \<rparr>"
    using normalize_cases [of data url] by blast
  then show ?thesis
  proof cases
    case null
    with assms show ?thesis by simp
  next
    case ok
    from ok(2) assms have "m = \<lparr> title = or_default t (JString ''Found Media Content''),
              author = or_default a (JString ''Source Verified''),
              views = or_default v (JString ''N/A''),
              duration = or_default d (JString ''00:00''),
              summary = or_default s (JString ''Media analysis complete.''),
              estimatedSizes = or_default e (estimatedSizes (getFallbackMetadata url)) \<rparr>"
      by simp
    then have "estimatedSizes m = or_default e (estimatedSizes (getFallbackMetadata url))"
      by simp
    with or_default_choice [of e "estimatedSizes (getFallbackMetadata url)"] ok(1)
    show ?thesis by auto
  qed
qed

lemma truthy_strings:
  assumes "truthy (title m) \<and> truthy (author m) \<and> truthy (views m) \<and>
     truthy (duration m) \<and> truthy (summary m) \<and> truthy (estimatedSizes m)"
  shows "title m \<noteq> JString [] \<and> author m \<noteq> JString [] \<and> views m \<noteq> JString [] \<and>
     duration m \<noteq> JString [] \<and> summary m \<noteq> JString []"
  using assms by (simp add: truthy_not_empty_string)

section \<open>The fallback synthesizer\<close>

text \<open>
  Claim C7. For every URL the fallback metadata has the title
  "High-Definition Media Stream", the views "Live Stream", the duration "Detected" and
  the fixed table of five sizes; its author is "YouTube Creator" when the URL contains
  "youtube.com" or "youtu.be", else "Vimeo Pro User" when it contains "vimeo.com", else
  "Verified Source". The three URLs of the specification are classified as it says.
\<close>

theorem fallback_metadata_fields:
  "title (getFallbackMetadata url) = JString ''High-Definition Media Stream'' \<and>
   views (getFallbackMetadata url) = JString ''Live Stream'' \<and>
   duration (getFallbackMetadata url) = JString ''Detected'' \<and>
   estimatedSizes (getFallbackMetadata url) = JObject
     [(''2160p'', JString ''1.4 GB''), (''1080p'', JString ''450 MB''),
      (''720p'', JString ''210 MB''), (''360p'', JString ''65 MB''),
      (''audio'', JString ''8.5 MB'')] \<and>
   author (getFallbackMetadata url) =
     (if (\<exists>ps ss. url = ps @ ''youtube.com'' @ ss) \<or> (\<exists>ps ss. url = ps @ ''youtu.be'' @ ss)
      then JString ''YouTube Creator''
      else if (\<exists>ps ss. url = ps @ ''vimeo.com'' @ ss) then JString ''Vimeo Pro User''
      else JString ''Verified Source'') \<and>
   author (getFallbackMetadata ''https://www.youtube.com/watch?v=x'') = JString ''YouTube Creator'' \<and>
   author (getFallbackMetadata ''https://vimeo.com/123'') = JString ''Vimeo Pro User'' \<and>
   author (getFallbackMetadata ''https://example.com/v.mp4'') = JString ''Verified Source''"
proof -
  have fixed: "title (getFallbackMetadata url) = JString ''High-Definition Media Stream'' \<and>
   views (getFallbackMetadata url) = JString ''Live Stream'' \<and>
   duration (getFallbackMetadata url) = JString ''Detected''"
    by (simp add: getFallbackMetadata_def Let_def)
  have who: "author (getFallbackMetadata url) =
     (if (\<exists>ps ss. url = ps @ ''youtube.com'' @ ss) \<or> (\<exists>ps ss. url = ps @ ''youtu.be'' @ ss)
      then JString ''YouTube Creator''
      else if (\<exists>ps ss. url = ps @ ''vimeo.com'' @ ss) then JString ''Vimeo Pro User''
      else JString ''Verified Source'')"
    unfolding includes_str_iff [symmetric] by (simp add: getFallbackMetadata_def Let_def)
  have ex1: "author (getFallbackMetadata ''https://www.youtube.com/watch?v=x'') = JString ''YouTube Creator''"
    by (simp add: getFallbackMetadata_def)
  have ex2: "author (getFallbackMetadata ''https://vimeo.com/123'') = JString ''Vimeo Pro User''"
    by (simp add: getFallbackMetadata_def)
  have ex3: "author (getFallbackMetadata ''https://example.com/v.mp4'') = JString ''Verified Source''"
    by (simp add: getFallbackMetadata_def)
  from fixed fallback_sizes [of url] who ex1 ex2 ex3 show ?thesis by blast
qed

text \<open>
  Claim C10. The check for the primary platform comes first: a URL that contains
  "youtube.com" or "youtu.be" and also "vimeo.com" gets the author "YouTube Creator".
\<close>

theorem primary_platform_precedence:
  assumes "includes_str url ''youtube.com'' \<or> includes_str url ''youtu.be''"
    and "includes_str url ''vimeo.com''"
  shows "author (getFallbackMetadata url) = JString ''YouTube Creator''"
  using assms by (simp add: getFallbackMetadata_def Let_def)

theorem primary_platform_precedence_witness:
  "(includes_str ''https://youtu.be/x?from=vimeo.com'' ''youtube.com'' \<or>
      includes_str ''https://youtu.be/x?from=vimeo.com'' ''youtu.be'') \<and>
   includes_str ''https://youtu.be/x?from=vimeo.com'' ''vimeo.com'' \<and>
   author (getFallbackMetadata ''https://youtu.be/x?from=vimeo.com'') = JString ''YouTube Creator''"
proof -
  have a: "includes_str ''https://youtu.be/x?from=vimeo.com'' ''youtube.com'' \<or>
      includes_str ''https://youtu.be/x?from=vimeo.com'' ''youtu.be''" by simp
  have b: "includes_str ''https://youtu.be/x?from=vimeo.com'' ''vimeo.com''" by simp
  from a b primary_platform_precedence [OF a b] show ?thesis by blast
qed

section \<open>The resolver never fails\<close>

text \<open>
  Claim C1. Whatever the URL, whatever \<^verbatim>\<open>JSON.parse\<close> does and whatever the call to
  the AI service does (it throws, its promise rejects, is fulfilled with any response, or
  never settles), the promise returned by \<^verbatim>\<open>fetchRealVideoMetadata\<close> is fulfilled,
  never rejected and never pending for ever, and no field of its value is null (a field
  cannot be \<^verbatim>\<open>undefined\<close>: it is a value).
\<close>

theorem resolver_total:
  "\<exists>t metadata.
     fetchRealVideoMetadata JSON_parse generateContent url = Some (t, Fulfilled metadata) \<and>
     title metadata \<noteq> JNull \<and> author metadata \<noteq> JNull \<and> views metadata \<noteq> JNull \<and>
     duration metadata \<noteq> JNull \<and> summary metadata \<noteq> JNull \<and>
     estimatedSizes metadata \<noteq> JNull"
proof -
  let ?fb = "getFallbackMetadata url"
  have fb: "title ?fb \<noteq> JNull \<and> author ?fb \<noteq> JNull \<and> views ?fb \<noteq> JNull \<and>
     duration ?fb \<noteq> JNull \<and> summary ?fb \<noteq> JNull \<and> estimatedSizes ?fb \<noteq> JNull"
    using fallback_truthy [of url] by (simp add: truthy_not_null)
  from resolver_cases [of JSON_parse generateContent url] show ?thesis
  proof (elim disjE exE conjE)
    assume "fetchRealVideoMetadata JSON_parse generateContent url = Some (TIMEOUT_MS, Fulfilled ?fb)"
    with fb show ?thesis by blast
  next
    fix t assume "fetchRealVideoMetadata JSON_parse generateContent url = Some (t, Fulfilled ?fb)"
    with fb show ?thesis by blast
  next
    fix t response data m
    assume n: "normalize_data data url = Inr m"
      and r: "fetchRealVideoMetadata JSON_parse generateContent url = Some (t, Fulfilled m)"
    from normalize_truthy [OF n] have "title m \<noteq> JNull \<and> author m \<noteq> JNull \<and> views m \<noteq> JNull \<and>
     duration m \<noteq> JNull \<and> summary m \<noteq> JNull \<and> estimatedSizes m \<noteq> JNull"
      by (simp add: truthy_not_null)
    with r show ?thesis by blast
  qed
qed

text \<open>
  Claim C5. When the promise of the AI call never settles, the resolver is fulfilled with
  the fallback metadata of the URL, and the time of that settlement is the 25000 ms of
  the timer: not earlier, not later.
\<close>

theorem never_settling_query:
  "fetchRealVideoMetadata JSON_parse (Returns None) url =
     Some (25000, Fulfilled (getFallbackMetadata url))"
  by (simp add: resolver_pending fetchPromise_def TIMEOUT_MS_def)

text \<open>
  Claim C6. When the AI query fails before the timer fires (its promise rejects, the call
  throws, or the text of its response is not JSON so that \<^verbatim>\<open>JSON.parse\<close> throws), the
  resolver is fulfilled, not rejected, with the fallback metadata of the URL, at the time
  of the failure and so before the 25000 ms of the timer.
\<close>

theorem failed_query_gives_fallback:
  assumes "t < TIMEOUT_MS"
    and "generateContent = Returns (Some (t, Rejected err)) \<or>
         (generateContent = Throws err \<and> t = 0) \<or>
         (\<exists>response. generateContent = Returns (Some (t, Fulfilled response)) \<and>
            JSON_parse (text_or_default response) = Inl err)"
  shows "fetchRealVideoMetadata JSON_parse generateContent url =
           Some (t, Fulfilled (getFallbackMetadata url))"
proof -
  from assms(2) have "fetchPromise JSON_parse generateContent url =
      Some (t, Fulfilled (getFallbackMetadata url))"
    by (auto simp: fetchPromise_def parse_response_def and_then_def)
  with assms(1) show ?thesis by (simp add: resolver_in_time)
qed

theorem failed_query_gives_fallback_witness:
  "(0::nat) < TIMEOUT_MS \<and>
   fetchRealVideoMetadata sample_JSON_parse
       (Returns (Some (0, Rejected (Error ''fetch failed'')))) ''https://vimeo.com/123'' =
     Some (0, Fulfilled (getFallbackMetadata ''https://vimeo.com/123'')) \<and>
   (1200::nat) < TIMEOUT_MS \<and>
   sample_JSON_parse (text_or_default (Response (Some ''<html>Service Unavailable</html>''))) =
     Inl SyntaxError \<and>
   fetchRealVideoMetadata sample_JSON_parse
       (Returns (Some (1200, Fulfilled (Response (Some ''<html>Service Unavailable</html>'')))))
       ''https://vimeo.com/123'' =
     Some (1200, Fulfilled (getFallbackMetadata ''https://vimeo.com/123''))"
proof -
  have t0: "(0::nat) < TIMEOUT_MS" and t1: "(1200::nat) < TIMEOUT_MS"
    by (simp_all add: TIMEOUT_MS_def)
  have bad: "sample_JSON_parse (text_or_default (Response (Some ''<html>Service Unavailable</html>''))) =
     Inl SyntaxError"
    by (simp add: text_or_default_def sample_parse_bad)
  have r0: "fetchRealVideoMetadata sample_JSON_parse
       (Returns (Some (0, Rejected (Error ''fetch failed'')))) ''https://vimeo.com/123'' =
     Some (0, Fulfilled (getFallbackMetadata ''https://vimeo.com/123''))"
    using failed_query_gives_fallback [OF t0, of _ "Error ''fetch failed''"] by blast
  have r1: "fetchRealVideoMetadata sample_JSON_parse
       (Returns (Some (1200, Fulfilled (Response (Some ''<html>Service Unavailable</html>'')))))
       ''https://vimeo.com/123'' =
     Some (1200, Fulfilled (getFallbackMetadata ''https://vimeo.com/123''))"
    using failed_query_gives_fallback [OF t1, of _ SyntaxError sample_JSON_parse] bad by blast
  from t0 t1 bad r0 r1 show ?thesis by blast
qed

section \<open>A successful query\<close>

text \<open>
  Claim C8. When the AI query is fulfilled before the timer fires and the text of its
  response parses to an object whose title, author, views, duration and summary are
  non-empty strings and whose estimatedSizes is an object binding each of the five
  quality keys to a non-empty string, the resolver is fulfilled with exactly these six
  values.
\<close>

theorem full_payload_unmodified:
  assumes "t < TIMEOUT_MS"
    and "generateContent = Returns (Some (t, Fulfilled response))"
    and "JSON_parse (text_or_default response) = Inr (JObject kvs)"
    and "map_of kvs ''title'' = Some (JString ti)" and "ti \<noteq> []"
    and "map_of kvs ''author'' = Some (JString au)" and "au \<noteq> []"
    and "map_of kvs ''views'' = Some (JString vi)" and "vi \<noteq> []"
    and "map_of kvs ''duration'' = Some (JString du)" and "du \<noteq> []"
    and "map_of kvs ''summary'' = Some (JString su)" and "su \<noteq> []"
    and "map_of kvs ''estimatedSizes'' = Some (JObject sizes)"
    and "list_all (\<lambda>k. \<exists>s. map_of sizes k = Some (JString s) \<and> s \<noteq> [])
           [''2160p'', ''1080p'', ''720p'', ''360p'', ''audio'']"
  shows "fetchRealVideoMetadata JSON_parse generateContent url =
           Some (t, Fulfilled \<lparr> title = JString ti, author = JString au, views = JString vi,
                                 duration = JString du, summary = JString su,
                                 estimatedSizes = JObject sizes \<rparr>)"
proof -
  have "normalize_data (JObject kvs) url =
      Inr \<lparr> title = JString ti, author = JString au, views = JString vi,
            duration = JString du, summary = JString su, estimatedSizes = JObject sizes \<rparr>"
    using assms(4-14)
    by (simp add: normalize_not_null [OF get_prop_object get_prop_object get_prop_object
          get_prop_object get_prop_object get_prop_object] or_default_kept)
  with assms(1-3) show ?thesis by (intro resolver_success) simp_all
qed

theorem full_payload_unmodified_witness:
  "(350::nat) < TIMEOUT_MS \<and>
   sample_JSON_parse (text_or_default (Response (Some full_text))) = Inr (JObject
         [(''title'', JString ''Big Buck Bunny''), (''author'', JString ''Blender''),
          (''views'', JString ''1000''), (''duration'', JString ''9:56''),
          (''summary'', JString ''A short film.''),
          (''estimatedSizes'', JObject
             [(''2160p'', JString ''2 GB''), (''1080p'', JString ''700 MB''),
              (''720p'', JString ''300 MB''), (''360p'', JString ''90 MB''),
              (''audio'', JString ''9 MB'')])]) \<and>
   fetchRealVideoMetadata sample_JSON_parse
       (Returns (Some (350, Fulfilled (Response (Some full_text)))))
       ''https://www.youtube.com/watch?v=x'' =
     Some (350, Fulfilled \<lparr> title = JString ''Big Buck Bunny'', author = JString ''Blender'',
        views = JString ''1000'', duration = JString ''9:56'', summary = JString ''A short film.'',
        estimatedSizes = JObject
             [(''2160p'', JString ''2 GB''), (''1080p'', JString ''700 MB''),
              (''720p'', JString ''300 MB''), (''360p'', JString ''90 MB''),
              (''audio'', JString ''9 MB'')] \<rparr>)"
proof -
  have t: "(350::nat) < TIMEOUT_MS" by (simp add: TIMEOUT_MS_def)
  have p: "sample_JSON_parse (text_or_default (Response (Some full_text))) = Inr (JObject
         [(''title'', JString ''Big Buck Bunny''), (''author'', JString ''Blender''),
          (''views'', JString ''1000''), (''duration'', JString ''9:56''),
          (''summary'', JString ''A short film.''),
          (''estimatedSizes'', JObject
             [(''2160p'', JString ''2 GB''), (''1080p'', JString ''700 MB''),
              (''720p'', JString ''300 MB''), (''360p'', JString ''90 MB''),
              (''audio'', JString ''9 MB'')])])"
    by (simp only: text_or_default_sample sample_parse_full_value)
  have r: "fetchRealVideoMetadata sample_JSON_parse
       (Returns (Some (350, Fulfilled (Response (Some full_text)))))
       ''https://www.youtube.com/watch?v=x'' =
     Some (350, Fulfilled \<lparr> title = JString ''Big Buck Bunny'', author = JString ''Blender'',
        views = JString ''1000'', duration = JString ''9:56'', summary = JString ''A short film.'',
        estimatedSizes = JObject
             [(''2160p'', JString ''2 GB''), (''1080p'', JString ''700 MB''),
              (''720p'', JString ''300 MB''), (''360p'', JString ''90 MB''),
              (''audio'', JString ''9 MB'')] \<rparr>)"
    by (rule full_payload_unmodified
          [where generateContent = "Returns (Some (350, Fulfilled (Response (Some full_text))))"
             and response = "Response (Some full_text)" and t = 350 and JSON_parse = sample_JSON_parse,
           OF t refl p]) simp_all
  from t p r show ?thesis by blast
qed

text \<open>
  Claim C9. When the AI query is fulfilled before the timer fires and the text of its
  response is undefined or empty, the text parsed is "{}" (whose value is the empty
  object), and the resolver is fulfilled with the five default strings and the fallback
  table of sizes. This is not the fallback metadata, whose title is
  "High-Definition Media Stream".
\<close>

theorem empty_text_gives_defaults:
  assumes "t < TIMEOUT_MS"
    and "generateContent = Returns (Some (t, Fulfilled (Response reply)))"
    and "reply = None \<or> reply = Some []"
    and "JSON_parse ''{}'' = Inr (JObject [])"
  shows "fetchRealVideoMetadata JSON_parse generateContent url =
           Some (t, Fulfilled \<lparr> title = JString ''Found Media Content'',
                                 author = JString ''Source Verified'',
                                 views = JString ''N/A'',
                                 duration = JString ''00:00'',
                                 summary = JString ''Media analysis complete.'',
                                 estimatedSizes = JObject
                                   [(''2160p'', JString ''1.4 GB''), (''1080p'', JString ''450 MB''),
                                    (''720p'', JString ''210 MB''), (''360p'', JString ''65 MB''),
                                    (''audio'', JString ''8.5 MB'')] \<rparr>) \<and>
         fetchRealVideoMetadata JSON_parse generateContent url \<noteq>
           Some (t, Fulfilled (getFallbackMetadata url)) \<and>
         title (getFallbackMetadata url) = JString ''High-Definition Media Stream''"
proof -
  from assms(3) have body: "text_or_default (Response reply) = ''{}''"
    by (auto simp: text_or_default_def)
  have n: "normalize_data (JObject []) url =
      Inr \<lparr> title = JString ''Found Media Content'', author = JString ''Source Verified'',
            views = JString ''N/A'', duration = JString ''00:00'',
            summary = JString ''Media analysis complete.'',
            estimatedSizes = JObject
              [(''2160p'', JString ''1.4 GB''), (''1080p'', JString ''450 MB''),
               (''720p'', JString ''210 MB''), (''360p'', JString ''65 MB''),
               (''audio'', JString ''8.5 MB'')] \<rparr>"
    by (simp add: normalize_not_null [OF get_prop_object get_prop_object get_prop_object
          get_prop_object get_prop_object get_prop_object] or_default_absent fallback_sizes)
  from assms(1,2,4) body n have r: "fetchRealVideoMetadata JSON_parse generateContent url =
           Some (t, Fulfilled \<lparr> title = JString ''Found Media Content'',
                                 author = JString ''Source Verified'',
                                 views = JString ''N/A'',
                                 duration = JString ''00:00'',
                                 summary = JString ''Media analysis complete.'',
                                 estimatedSizes = JObject
                                   [(''2160p'', JString ''1.4 GB''), (''1080p'', JString ''450 MB''),
                                    (''720p'', JString ''210 MB''), (''360p'', JString ''65 MB''),
                                    (''audio'', JString ''8.5 MB'')] \<rparr>)"
    by (intro resolver_success [where response = "Response reply" and data = "JObject []"]) simp_all
  have ti: "title (getFallbackMetadata url) = JString ''High-Definition Media Stream''"
    by (simp add: getFallbackMetadata_def Let_def)
  have "fetchRealVideoMetadata JSON_parse generateContent url \<noteq>
           Some (t, Fulfilled (getFallbackMetadata url))"
  proof
    assume "fetchRealVideoMetadata JSON_parse generateContent url =
           Some (t, Fulfilled (getFallbackMetadata url))"
    with r have "getFallbackMetadata url =
        \<lparr> title = JString ''Found Media Content'', author = JString ''Source Verified'',
          views = JString ''N/A'', duration = JString ''00:00'',
          summary = JString ''Media analysis complete.'',
          estimatedSizes = JObject
            [(''2160p'', JString ''1.4 GB''), (''1080p'', JString ''450 MB''),
             (''720p'', JString ''210 MB''), (''360p'', JString ''65 MB''),
             (''audio'', JString ''8.5 MB'')] \<rparr>"
      by simp
    then have "title (getFallbackMetadata url) = JString ''Found Media Content''"
      by simp
    with ti show False by simp
  qed
  with r ti show ?thesis by blast
qed

theorem empty_text_gives_defaults_witness:
  "(350::nat) < TIMEOUT_MS \<and>
   sample_JSON_parse ''{}'' = Inr (JObject []) \<and>
   fetchRealVideoMetadata sample_JSON_parse (Returns (Some (350, Fulfilled (Response (Some [])))))
       ''https://vimeo.com/123'' =
     Some (350, Fulfilled \<lparr> title = JString ''Found Media Content'',
                                 author = JString ''Source Verified'',
                                 views = JString ''N/A'',
                                 duration = JString ''00:00'',
                                 summary = JString ''Media analysis complete.'',
                                 estimatedSizes = JObject
                                   [(''2160p'', JString ''1.4 GB''), (''1080p'', JString ''450 MB''),
                                    (''720p'', JString ''210 MB''), (''360p'', JString ''65 MB''),
                                    (''audio'', JString ''8.5 MB'')] \<rparr>) \<and>
   fetchRealVideoMetadata sample_JSON_parse (Returns (Some (350, Fulfilled (Response None))))
       ''https://vimeo.com/123'' \<noteq>
     Some (350, Fulfilled (getFallbackMetadata ''https://vimeo.com/123''))"
proof -
  have t: "(350::nat) < TIMEOUT_MS" by (simp add: TIMEOUT_MS_def)
  have a: "Some [] = None \<or> Some [] = Some ([]::string)" by simp
  have b: "None = None \<or> None = Some ([]::string)" by simp
  from empty_text_gives_defaults
      [where reply = "Some []" and t = 350 and JSON_parse = sample_JSON_parse and url = "''https://vimeo.com/123''"
         and generateContent = "Returns (Some (350, Fulfilled (Response (Some []))))",
       OF t refl a sample_parse_empty]
    empty_text_gives_defaults
      [where reply = None and t = 350 and JSON_parse = sample_JSON_parse and url = "''https://vimeo.com/123''"
         and generateContent = "Returns (Some (350, Fulfilled (Response None)))",
       OF t refl b sample_parse_empty]
    t sample_parse_empty
  show ?thesis by blast
qed

section \<open>Defaults for the fields of a payload\<close>

text \<open>
  Claim C4, as stated, fails: a malformed field is not replaced by its default when its
  value is truthy. For the response text \<^verbatim>\<open>{"title":42}\<close> the title of the result is
  the number 42, not "Found Media Content".
\<close>

theorem number_title_counterexample:
  "sample_JSON_parse (text_or_default (Response (Some number_title_text))) =
     Inr (JObject [(''title'', JNumber (Finite 42))]) \<and>
   fetchRealVideoMetadata sample_JSON_parse
       (Returns (Some (350, Fulfilled (Response (Some number_title_text)))))
       ''https://example.com/v.mp4'' =
     Some (350, Fulfilled \<lparr> title = JNumber (Finite 42),
        author = JString ''Source Verified'', views = JString ''N/A'',
        duration = JString ''00:00'', summary = JString ''Media analysis complete.'',
        estimatedSizes = JObject
          [(''2160p'', JString ''1.4 GB''), (''1080p'', JString ''450 MB''),
           (''720p'', JString ''210 MB''), (''360p'', JString ''65 MB''),
           (''audio'', JString ''8.5 MB'')] \<rparr>) \<and>
   JNumber (Finite 42) \<noteq> JString ''Found Media Content''"
proof -
  have p: "sample_JSON_parse (text_or_default (Response (Some number_title_text))) =
     Inr (JObject [(''title'', JNumber (Finite 42))])"
    by (simp only: text_or_default_sample sample_parse_number_title)
  have n: "normalize_data (JObject [(''title'', JNumber (Finite 42))]) ''https://example.com/v.mp4'' =
     Inr \<lparr> title = JNumber (Finite 42),
        author = JString ''Source Verified'', views = JString ''N/A'',
        duration = JString ''00:00'', summary = JString ''Media analysis complete.'',
        estimatedSizes = JObject
          [(''2160p'', JString ''1.4 GB''), (''1080p'', JString ''450 MB''),
           (''720p'', JString ''210 MB''), (''360p'', JString ''65 MB''),
           (''audio'', JString ''8.5 MB'')] \<rparr>"
    by (simp add: normalize_not_null [OF get_prop_object get_prop_object get_prop_object
          get_prop_object get_prop_object get_prop_object] or_default_def fallback_sizes)
  have t: "(350::nat) \<le> TIMEOUT_MS" by (simp add: TIMEOUT_MS_def)
  have "fetchRealVideoMetadata sample_JSON_parse
       (Returns (Some (350, Fulfilled (Response (Some number_title_text)))))
       ''https://example.com/v.mp4'' =
     Some (350, Fulfilled \<lparr> title = JNumber (Finite 42),
        author = JString ''Source Verified'', views = JString ''N/A'',
        duration = JString ''00:00'', summary = JString ''Media analysis complete.'',
        estimatedSizes = JObject
          [(''2160p'', JString ''1.4 GB''), (''1080p'', JString ''450 MB''),
           (''720p'', JString ''210 MB''), (''360p'', JString ''65 MB''),
           (''audio'', JString ''8.5 MB'')] \<rparr>)"
    by (rule resolver_success [where response = "Response (Some number_title_text)"
          and data = "JObject [(''title'', JNumber (Finite 42))]"]) (rule t refl p n)+
  with p show ?thesis by simp
qed

text \<open>
  Claim C4, amended. When the AI query is fulfilled before the timer fires and the text
  of its response parses to a value other than null, every field that is absent from
  the payload or falsy there (null, false, 0 or the empty string) is replaced by its
  default: title "Found Media Content", author "Source Verified", views "N/A", duration
  "00:00", summary "Media analysis complete.", estimatedSizes the fallback table of
  sizes. A field whose value is truthy, of whatever type, is returned as it is.
\<close>

theorem falsy_fields_defaulted:
  assumes "t < TIMEOUT_MS"
    and "generateContent = Returns (Some (t, Fulfilled response))"
    and "JSON_parse (text_or_default response) = Inr data"
    and "data \<noteq> JNull"
  shows "\<exists>m. fetchRealVideoMetadata JSON_parse generateContent url = Some (t, Fulfilled m) \<and>
    ((\<forall>v. get_prop data ''title'' = Inr (Some v) \<longrightarrow> \<not> truthy v) \<longrightarrow>
       title m = JString ''Found Media Content'') \<and>
    ((\<forall>v. get_prop data ''author'' = Inr (Some v) \<longrightarrow> \<not> truthy v) \<longrightarrow>
       author m = JString ''Source Verified'') \<and>
    ((\<forall>v. get_prop data ''views'' = Inr (Some v) \<longrightarrow> \<not> truthy v) \<longrightarrow>
       views m = JString ''N/A'') \<and>
    ((\<forall>v. get_prop data ''duration'' = Inr (Some v) \<longrightarrow> \<not> truthy v) \<longrightarrow>
       duration m = JString ''00:00'') \<and>
    ((\<forall>v. get_prop data ''summary'' = Inr (Some v) \<longrightarrow> \<not> truthy v) \<longrightarrow>
       summary m = JString ''Media analysis complete.'') \<and>
    ((\<forall>v. get_prop data ''estimatedSizes'' = Inr (Some v) \<longrightarrow> \<not> truthy v) \<longrightarrow>
       estimatedSizes m = JObject
         [(''2160p'', JString ''1.4 GB''), (''1080p'', JString ''450 MB''),
          (''720p'', JString ''210 MB''), (''360p'', JString ''65 MB''),
          (''audio'', JString ''8.5 MB'')]) \<and>
    (\<forall>v. truthy v \<longrightarrow>
       (get_prop data ''title'' = Inr (Some v) \<longrightarrow> title m = v) \<and>
       (get_prop data ''author'' = Inr (Some v) \<longrightarrow> author m = v) \<and>
       (get_prop data ''views'' = Inr (Some v) \<longrightarrow> views m = v) \<and>
       (get_prop data ''duration'' = Inr (Some v) \<longrightarrow> duration m = v) \<and>
       (get_prop data ''summary'' = Inr (Some v) \<longrightarrow> summary m = v) \<and>
       (get_prop data ''estimatedSizes'' = Inr (Some v) \<longrightarrow> estimatedSizes m = v))"
proof -
  from assms(4) obtain ti au vi du su es where reads:
    "get_prop data ''title'' = Inr ti" "get_prop data ''author'' = Inr au"
    "get_prop data ''views'' = Inr vi" "get_prop data ''duration'' = Inr du"
    "get_prop data ''summary'' = Inr su" "get_prop data ''estimatedSizes'' = Inr es"
    using get_prop_not_null by metis
  define m where "m = \<lparr> title = or_default ti (JString ''Found Media Content''),
           author = or_default au (JString ''Source Verified''),
           views = or_default vi (JString ''N/A''),
           duration = or_default du (JString ''00:00''),
           summary = or_default su (JString ''Media analysis complete.''),
           estimatedSizes = or_default es (estimatedSizes (getFallbackMetadata url)) \<rparr>"
  have n: "normalize_data data url = Inr m"
    unfolding m_def by (rule normalize_not_null [OF reads])
  from assms(1) have le: "t \<le> TIMEOUT_MS" by simp
  have r: "fetchRealVideoMetadata JSON_parse generateContent url = Some (t, Fulfilled m)"
    by (rule resolver_success [where response = response and data = data])
      (rule le assms(2,3) n)+
  have f1: "(\<forall>v. get_prop data ''title'' = Inr (Some v) \<longrightarrow> \<not> truthy v) \<longrightarrow>
       title m = JString ''Found Media Content''"
    by (simp add: m_def reads or_default_cases(1))
  have f2: "(\<forall>v. get_prop data ''author'' = Inr (Some v) \<longrightarrow> \<not> truthy v) \<longrightarrow>
       author m = JString ''Source Verified''"
    by (simp add: m_def reads or_default_cases(1))
  have f3: "(\<forall>v. get_prop data ''views'' = Inr (Some v) \<longrightarrow> \<not> truthy v) \<longrightarrow>
       views m = JString ''N/A''"
    by (simp add: m_def reads or_default_cases(1))
  have f4: "(\<forall>v. get_prop data ''duration'' = Inr (Some v) \<longrightarrow> \<not> truthy v) \<longrightarrow>
       duration m = JString ''00:00''"
    by (simp add: m_def reads or_default_cases(1))
  have f5: "(\<forall>v. get_prop data ''summary'' = Inr (Some v) \<longrightarrow> \<not> truthy v) \<longrightarrow>
       summary m = JString ''Media analysis complete.''"
    by (simp add: m_def reads or_default_cases(1))
  have f6: "(\<forall>v. get_prop data ''estimatedSizes'' = Inr (Some v) \<longrightarrow> \<not> truthy v) \<longrightarrow>
       estimatedSizes m = JObject
         [(''2160p'', JString ''1.4 GB''), (''1080p'', JString ''450 MB''),
          (''720p'', JString ''210 MB''), (''360p'', JString ''65 MB''),
          (''audio'', JString ''8.5 MB'')]"
    by (simp add: m_def reads or_default_cases(1) fallback_sizes)
  have kept: "\<forall>v. truthy v \<longrightarrow>
       (get_prop data ''title'' = Inr (Some v) \<longrightarrow> title m = v) \<and>
       (get_prop data ''author'' = Inr (Some v) \<longrightarrow> author m = v) \<and>
       (get_prop data ''views'' = Inr (Some v) \<longrightarrow> views m = v) \<and>
       (get_prop data ''duration'' = Inr (Some v) \<longrightarrow> duration m = v) \<and>
       (get_prop data ''summary'' = Inr (Some v) \<longrightarrow> summary m = v) \<and>
       (get_prop data ''estimatedSizes'' = Inr (Some v) \<longrightarrow> estimatedSizes m = v)"
    by (simp add: m_def reads or_default_kept)
  from r f1 f2 f3 f4 f5 f6 kept show ?thesis by blast
qed

theorem falsy_fields_defaulted_witness:
  "(350::nat) < TIMEOUT_MS \<and>
   sample_JSON_parse (text_or_default (Response (Some number_title_text))) =
     Inr (JObject [(''title'', JNumber (Finite 42))]) \<and>
   JObject [(''title'', JNumber (Finite 42))] \<noteq> JNull \<and>
   fetchRealVideoMetadata sample_JSON_parse
       (Returns (Some (350, Fulfilled (Response (Some number_title_text)))))
       ''https://vimeo.com/123'' =
     Some (350, Fulfilled \<lparr> title = JNumber (Finite 42),
        author = JString ''Source Verified'', views = JString ''N/A'',
        duration = JString ''00:00'', summary = JString ''Media analysis complete.'',
        estimatedSizes = JObject
          [(''2160p'', JString ''1.4 GB''), (''1080p'', JString ''450 MB''),
           (''720p'', JString ''210 MB''), (''360p'', JString ''65 MB''),
           (''audio'', JString ''8.5 MB'')] \<rparr>)"
proof -
  let ?data = "JObject [(''title'', JNumber (Finite 42))]"
  have t: "(350::nat) < TIMEOUT_MS" by (simp add: TIMEOUT_MS_def)
  have p: "sample_JSON_parse (text_or_default (Response (Some number_title_text))) = Inr ?data"
    by (simp only: text_or_default_sample sample_parse_number_title)
  have nn: "?data \<noteq> JNull" by simp
  from falsy_fields_defaulted
    [where t = 350 and JSON_parse = sample_JSON_parse and data = ?data
       and response = "Response (Some number_title_text)"
       and generateContent = "Returns (Some (350, Fulfilled (Response (Some number_title_text))))"
       and url = "''https://vimeo.com/123''",
     OF t refl p nn]
  obtain m where
    r: "fetchRealVideoMetadata sample_JSON_parse
       (Returns (Some (350, Fulfilled (Response (Some number_title_text)))))
       ''https://vimeo.com/123'' = Some (350, Fulfilled m)" and
    f: "title m = JNumber (Finite 42)" "author m = JString ''Source Verified''"
      "views m = JString ''N/A''" "duration m = JString ''00:00''"
      "summary m = JString ''Media analysis complete.''"
      "estimatedSizes m = JObject
          [(''2160p'', JString ''1.4 GB''), (''1080p'', JString ''450 MB''),
           (''720p'', JString ''210 MB''), (''360p'', JString ''65 MB''),
           (''audio'', JString ''8.5 MB'')]"
    by (auto simp: get_prop_def)
  from f have "m = \<lparr> title = JNumber (Finite 42),
        author = JString ''Source Verified'', views = JString ''N/A'',
        duration = JString ''00:00'', summary = JString ''Media analysis complete.'',
        estimatedSizes = JObject
          [(''2160p'', JString ''1.4 GB''), (''1080p'', JString ''450 MB''),
           (''720p'', JString ''210 MB''), (''360p'', JString ''65 MB''),
           (''audio'', JString ''8.5 MB'')] \<rparr>"
    by (cases m) simp
  with r t p nn show ?thesis by simp
qed

section \<open>The sizes of a payload\<close>

text \<open>
  Claim C2, as stated, fails: the sizes are not merged key by key. For a payload without
  author whose estimatedSizes has the keys "1080p", "720p" and "360p" only, the
  estimatedSizes of the result is that object: "2160p" and "audio" are undefined in it,
  not "1.4 GB" and "8.5 MB" as in the fallback table.
\<close>

theorem partial_sizes_counterexample:
  "fetchRealVideoMetadata sample_JSON_parse
       (Returns (Some (350, Fulfilled (Response (Some partial_text)))))
       ''https://vimeo.com/123'' =
     Some (350, Fulfilled \<lparr> title = JString ''Big Buck Bunny'',
        author = JString ''Source Verified'', views = JString ''1000'',
        duration = JString ''9:56'', summary = JString ''A short film.'',
        estimatedSizes = JObject
          [(''1080p'', JString ''700 MB''), (''720p'', JString ''300 MB''),
           (''360p'', JString ''90 MB'')] \<rparr>) \<and>
   get_prop (JObject
          [(''1080p'', JString ''700 MB''), (''720p'', JString ''300 MB''),
           (''360p'', JString ''90 MB'')]) ''2160p'' = Inr None \<and>
   get_prop (JObject
          [(''1080p'', JString ''700 MB''), (''720p'', JString ''300 MB''),
           (''360p'', JString ''90 MB'')]) ''audio'' = Inr None \<and>
   get_prop (estimatedSizes (getFallbackMetadata ''https://vimeo.com/123'')) ''2160p'' =
     Inr (Some (JString ''1.4 GB'')) \<and>
   get_prop (estimatedSizes (getFallbackMetadata ''https://vimeo.com/123'')) ''audio'' =
     Inr (Some (JString ''8.5 MB''))"
proof -
  let ?sizes = "JObject [(''1080p'', JString ''700 MB''), (''720p'', JString ''300 MB''),
           (''360p'', JString ''90 MB'')]"
  let ?data = "JObject
         [(''title'', JString ''Big Buck Bunny''),
          (''views'', JString ''1000''), (''duration'', JString ''9:56''),
          (''summary'', JString ''A short film.''),
          (''estimatedSizes'', ?sizes)]"
  have t: "(350::nat) \<le> TIMEOUT_MS" by (simp add: TIMEOUT_MS_def)
  have p: "sample_JSON_parse (text_or_default (Response (Some partial_text))) = Inr ?data"
    by (simp only: text_or_default_sample sample_parse_partial)
  have n: "normalize_data ?data ''https://vimeo.com/123'' =
     Inr \<lparr> title = JString ''Big Buck Bunny'',
        author = JString ''Source Verified'', views = JString ''1000'',
        duration = JString ''9:56'', summary = JString ''A short film.'',
        estimatedSizes = ?sizes \<rparr>"
    by (simp add: normalize_not_null [OF get_prop_object get_prop_object get_prop_object
          get_prop_object get_prop_object get_prop_object] or_default_def)
  have r: "fetchRealVideoMetadata sample_JSON_parse
       (Returns (Some (350, Fulfilled (Response (Some partial_text)))))
       ''https://vimeo.com/123'' =
     Some (350, Fulfilled \<lparr> title = JString ''Big Buck Bunny'',
        author = JString ''Source Verified'', views = JString ''1000'',
        duration = JString ''9:56'', summary = JString ''A short film.'',
        estimatedSizes = ?sizes \<rparr>)"
    by (rule resolver_success [where response = "Response (Some partial_text)"
          and data = ?data]) (rule t refl p n)+
  have g: "get_prop ?sizes ''2160p'' = Inr None" "get_prop ?sizes ''audio'' = Inr None"
    by (simp_all add: get_prop_def)
  have fb: "get_prop (estimatedSizes (getFallbackMetadata ''https://vimeo.com/123'')) ''2160p'' =
     Inr (Some (JString ''1.4 GB''))"
    "get_prop (estimatedSizes (getFallbackMetadata ''https://vimeo.com/123'')) ''audio'' =
     Inr (Some (JString ''8.5 MB''))"
    by (simp_all add: fallback_sizes get_prop_def)
  from r g fb show ?thesis by blast
qed

text \<open>
  Claim C2, amended. When the AI query is fulfilled before the timer fires with a payload
  whose estimatedSizes is an object, with or without an author and whatever quality keys
  the object has, the resolver returns that object as it is: each of the five quality
  keys reads in the result as it reads in the payload, so a provided size is verbatim
  and a key missing there is missing in the result. The fallback table stands in only
  for an estimatedSizes that is absent or falsy as a whole. A missing author is filled
  with "Source Verified".
\<close>

theorem provided_sizes_returned_as_is:
  assumes "t < TIMEOUT_MS"
    and "generateContent = Returns (Some (t, Fulfilled response))"
    and "JSON_parse (text_or_default response) = Inr (JObject kvs)"
    and "map_of kvs ''estimatedSizes'' = Some (JObject sizes)"
  shows "\<exists>m. fetchRealVideoMetadata JSON_parse generateContent url = Some (t, Fulfilled m) \<and>
           estimatedSizes m = JObject sizes \<and>
           get_prop (estimatedSizes m) ''2160p'' = Inr (map_of sizes ''2160p'') \<and>
           get_prop (estimatedSizes m) ''1080p'' = Inr (map_of sizes ''1080p'') \<and>
           get_prop (estimatedSizes m) ''720p'' = Inr (map_of sizes ''720p'') \<and>
           get_prop (estimatedSizes m) ''360p'' = Inr (map_of sizes ''360p'') \<and>
           get_prop (estimatedSizes m) ''audio'' = Inr (map_of sizes ''audio'') \<and>
           (map_of kvs ''author'' = None \<longrightarrow> author m = JString ''Source Verified'')"
proof -
  define m where "m = \<lparr> title = or_default (map_of kvs ''title'') (JString ''Found Media Content''),
           author = or_default (map_of kvs ''author'') (JString ''Source Verified''),
           views = or_default (map_of kvs ''views'') (JString ''N/A''),
           duration = or_default (map_of kvs ''duration'') (JString ''00:00''),
           summary = or_default (map_of kvs ''summary'') (JString ''Media analysis complete.''),
           estimatedSizes = or_default (map_of kvs ''estimatedSizes'')
             (estimatedSizes (getFallbackMetadata url)) \<rparr>"
  have n: "normalize_data (JObject kvs) url = Inr m"
    unfolding m_def
    by (rule normalize_not_null [OF get_prop_object get_prop_object get_prop_object
          get_prop_object get_prop_object get_prop_object])
  from assms(1) have le: "t \<le> TIMEOUT_MS" by simp
  have r: "fetchRealVideoMetadata JSON_parse generateContent url = Some (t, Fulfilled m)"
    by (rule resolver_success [where response = response and data = "JObject kvs"])
      (rule le assms(2,3) n)+
  have e: "estimatedSizes m = JObject sizes"
    by (simp add: m_def assms(4) or_default_def)
  have a: "map_of kvs ''author'' = None \<longrightarrow> author m = JString ''Source Verified''"
  proof
    assume "map_of kvs ''author'' = None"
    then have "or_default (map_of kvs ''author'') (JString ''Source Verified'') =
        JString ''Source Verified''"
      by (simp only: or_default_absent)
    then show "author m = JString ''Source Verified''"
      by (simp add: m_def)
  qed
  have k: "get_prop (estimatedSizes m) ''2160p'' = Inr (map_of sizes ''2160p'')"
    "get_prop (estimatedSizes m) ''1080p'' = Inr (map_of sizes ''1080p'')"
    "get_prop (estimatedSizes m) ''720p'' = Inr (map_of sizes ''720p'')"
    "get_prop (estimatedSizes m) ''360p'' = Inr (map_of sizes ''360p'')"
    "get_prop (estimatedSizes m) ''audio'' = Inr (map_of sizes ''audio'')"
    by (simp_all only: e get_prop_object)
  show ?thesis by (rule exI [of _ m]) (intro conjI r e k a)
qed

theorem provided_sizes_returned_as_is_witness:
  "(350::nat) < TIMEOUT_MS \<and>
   sample_JSON_parse (text_or_default (Response (Some partial_text))) = Inr (JObject
         [(''title'', JString ''Big Buck Bunny''),
          (''views'', JString ''1000''), (''duration'', JString ''9:56''),
          (''summary'', JString ''A short film.''),
          (''estimatedSizes'', JObject
             [(''1080p'', JString ''700 MB''), (''720p'', JString ''300 MB''),
              (''360p'', JString ''90 MB'')])]) \<and>
   (\<exists>m. fetchRealVideoMetadata sample_JSON_parse
         (Returns (Some (350, Fulfilled (Response (Some partial_text)))))
         ''https://vimeo.com/123'' = Some (350, Fulfilled m) \<and>
       estimatedSizes m = JObject
             [(''1080p'', JString ''700 MB''), (''720p'', JString ''300 MB''),
              (''360p'', JString ''90 MB'')] \<and>
       get_prop (estimatedSizes m) ''2160p'' = Inr None \<and>
       get_prop (estimatedSizes m) ''1080p'' = Inr (Some (JString ''700 MB'')) \<and>
       get_prop (estimatedSizes m) ''720p'' = Inr (Some (JString ''300 MB'')) \<and>
       get_prop (estimatedSizes m) ''360p'' = Inr (Some (JString ''90 MB'')) \<and>
       get_prop (estimatedSizes m) ''audio'' = Inr None \<and>
       author m = JString ''Source Verified'') \<and>
   sample_JSON_parse (text_or_default (Response (Some one_size_text))) = Inr (JObject
         [(''title'', JString ''Big Buck Bunny''), (''author'', JString ''Blender''),
          (''views'', JString ''1000''), (''duration'', JString ''9:56''),
          (''summary'', JString ''A short film.''),
          (''estimatedSizes'', JObject [(''1080p'', JString ''150MB'')])]) \<and>
   (\<exists>m. fetchRealVideoMetadata sample_JSON_parse
         (Returns (Some (350, Fulfilled (Response (Some one_size_text)))))
         ''https://vimeo.com/123'' = Some (350, Fulfilled m) \<and>
       estimatedSizes m = JObject [(''1080p'', JString ''150MB'')] \<and>
       get_prop (estimatedSizes m) ''2160p'' = Inr None \<and>
       get_prop (estimatedSizes m) ''1080p'' = Inr (Some (JString ''150MB'')) \<and>
       get_prop (estimatedSizes m) ''720p'' = Inr None \<and>
       get_prop (estimatedSizes m) ''360p'' = Inr None \<and>
       get_prop (estimatedSizes m) ''audio'' = Inr None)"
proof -
  let ?sizes = "[(''1080p'', JString ''700 MB''), (''720p'', JString ''300 MB''),
           (''360p'', JString ''90 MB'')]"
  let ?kvs = "[(''title'', JString ''Big Buck Bunny''),
          (''views'', JString ''1000''), (''duration'', JString ''9:56''),
          (''summary'', JString ''A short film.''),
          (''estimatedSizes'', JObject ?sizes)]"
  let ?sizes1 = "[(''1080p'', JString ''150MB'')]"
  let ?kvs1 = "[(''title'', JString ''Big Buck Bunny''), (''author'', JString ''Blender''),
          (''views'', JString ''1000''), (''duration'', JString ''9:56''),
          (''summary'', JString ''A short film.''),
          (''estimatedSizes'', JObject ?sizes1)]"
  have t: "(350::nat) < TIMEOUT_MS" by (simp add: TIMEOUT_MS_def)
  have p: "sample_JSON_parse (text_or_default (Response (Some partial_text))) = Inr (JObject ?kvs)"
    by (simp only: text_or_default_sample sample_parse_partial)
  have e: "map_of ?kvs ''estimatedSizes'' = Some (JObject ?sizes)" by simp
  have a: "map_of ?kvs ''author'' = None" by simp
  have p1: "sample_JSON_parse (text_or_default (Response (Some one_size_text))) = Inr (JObject ?kvs1)"
    by (simp only: text_or_default_sample sample_parse_one_size)
  have e1: "map_of ?kvs1 ''estimatedSizes'' = Some (JObject ?sizes1)" by simp
  note inst = provided_sizes_returned_as_is
    [where t = 350 and JSON_parse = sample_JSON_parse and kvs = ?kvs and sizes = ?sizes
       and response = "Response (Some partial_text)"
       and generateContent = "Returns (Some (350, Fulfilled (Response (Some partial_text))))"
       and url = "''https://vimeo.com/123''",
     OF t refl p e]
  from inst obtain m where big:
    "fetchRealVideoMetadata sample_JSON_parse
         (Returns (Some (350, Fulfilled (Response (Some partial_text)))))
         ''https://vimeo.com/123'' = Some (350, Fulfilled m) \<and>
     estimatedSizes m = JObject ?sizes \<and>
     get_prop (estimatedSizes m) ''2160p'' = Inr (map_of ?sizes ''2160p'') \<and>
     get_prop (estimatedSizes m) ''1080p'' = Inr (map_of ?sizes ''1080p'') \<and>
     get_prop (estimatedSizes m) ''720p'' = Inr (map_of ?sizes ''720p'') \<and>
     get_prop (estimatedSizes m) ''360p'' = Inr (map_of ?sizes ''360p'') \<and>
     get_prop (estimatedSizes m) ''audio'' = Inr (map_of ?sizes ''audio'') \<and>
     (map_of ?kvs ''author'' = None \<longrightarrow> author m = JString ''Source Verified'')" ..
  note r = big [THEN conjunct1]
  note s = big [THEN conjunct2, THEN conjunct1]
  note ka = big [THEN conjunct2, THEN conjunct2, THEN conjunct1]
  note kb = big [THEN conjunct2, THEN conjunct2, THEN conjunct2, THEN conjunct1]
  note kc = big [THEN conjunct2, THEN conjunct2, THEN conjunct2, THEN conjunct2, THEN conjunct1]
  note kd = big [THEN conjunct2, THEN conjunct2, THEN conjunct2, THEN conjunct2, THEN conjunct2,
    THEN conjunct1]
  note ke = big [THEN conjunct2, THEN conjunct2, THEN conjunct2, THEN conjunct2, THEN conjunct2,
    THEN conjunct2, THEN conjunct1]
  note au = big [THEN conjunct2, THEN conjunct2, THEN conjunct2, THEN conjunct2, THEN conjunct2,
    THEN conjunct2, THEN conjunct2, THEN mp, OF a]
  have va: "map_of ?sizes ''2160p'' = None" by simp
  have vb: "map_of ?sizes ''1080p'' = Some (JString ''700 MB'')" by simp
  have vc: "map_of ?sizes ''720p'' = Some (JString ''300 MB'')" by simp
  have vd: "map_of ?sizes ''360p'' = Some (JString ''90 MB'')" by simp
  have ve: "map_of ?sizes ''audio'' = None" by simp
  have first: "\<exists>m. fetchRealVideoMetadata sample_JSON_parse
         (Returns (Some (350, Fulfilled (Response (Some partial_text)))))
         ''https://vimeo.com/123'' = Some (350, Fulfilled m) \<and>
       estimatedSizes m = JObject ?sizes \<and>
       get_prop (estimatedSizes m) ''2160p'' = Inr None \<and>
       get_prop (estimatedSizes m) ''1080p'' = Inr (Some (JString ''700 MB'')) \<and>
       get_prop (estimatedSizes m) ''720p'' = Inr (Some (JString ''300 MB'')) \<and>
       get_prop (estimatedSizes m) ''360p'' = Inr (Some (JString ''90 MB'')) \<and>
       get_prop (estimatedSizes m) ''audio'' = Inr None \<and>
       author m = JString ''Source Verified''"
    by (rule exI [of _ m])
      (intro conjI r s au trans [OF ka arg_cong [where f = Inr, OF va]] trans [OF kb arg_cong [where f = Inr, OF vb]]
        trans [OF kc arg_cong [where f = Inr, OF vc]] trans [OF kd arg_cong [where f = Inr, OF vd]]
        trans [OF ke arg_cong [where f = Inr, OF ve]])
  note inst1 = provided_sizes_returned_as_is
    [where t = 350 and JSON_parse = sample_JSON_parse and kvs = ?kvs1 and sizes = ?sizes1
       and response = "Response (Some one_size_text)"
       and generateContent = "Returns (Some (350, Fulfilled (Response (Some one_size_text))))"
       and url = "''https://vimeo.com/123''",
     OF t refl p1 e1]
  from inst1 obtain m1 where big1:
    "fetchRealVideoMetadata sample_JSON_parse
         (Returns (Some (350, Fulfilled (Response (Some one_size_text)))))
         ''https://vimeo.com/123'' = Some (350, Fulfilled m1) \<and>
     estimatedSizes m1 = JObject ?sizes1 \<and>
     get_prop (estimatedSizes m1) ''2160p'' = Inr (map_of ?sizes1 ''2160p'') \<and>
     get_prop (estimatedSizes m1) ''1080p'' = Inr (map_of ?sizes1 ''1080p'') \<and>
     get_prop (estimatedSizes m1) ''720p'' = Inr (map_of ?sizes1 ''720p'') \<and>
     get_prop (estimatedSizes m1) ''360p'' = Inr (map_of ?sizes1 ''360p'') \<and>
     get_prop (estimatedSizes m1) ''audio'' = Inr (map_of ?sizes1 ''audio'') \<and>
     (map_of ?kvs1 ''author'' = None \<longrightarrow> author m1 = JString ''Source Verified'')" ..
  note r1 = big1 [THEN conjunct1]
  note s1 = big1 [THEN conjunct2, THEN conjunct1]
  note ka1 = big1 [THEN conjunct2, THEN conjunct2, THEN conjunct1]
  note kb1 = big1 [THEN conjunct2, THEN conjunct2, THEN conjunct2, THEN conjunct1]
  note kc1 = big1 [THEN conjunct2, THEN conjunct2, THEN conjunct2, THEN conjunct2, THEN conjunct1]
  note kd1 = big1 [THEN conjunct2, THEN conjunct2, THEN conjunct2, THEN conjunct2, THEN conjunct2,
    THEN conjunct1]
  note ke1 = big1 [THEN conjunct2, THEN conjunct2, THEN conjunct2, THEN conjunct2, THEN conjunct2,
    THEN conjunct2, THEN conjunct1]
  have va1: "map_of ?sizes1 ''2160p'' = None" by simp
  have vb1: "map_of ?sizes1 ''1080p'' = Some (JString ''150MB'')" by simp
  have vc1: "map_of ?sizes1 ''720p'' = None" by simp
  have vd1: "map_of ?sizes1 ''360p'' = None" by simp
  have ve1: "map_of ?sizes1 ''audio'' = None" by simp
  have second: "\<exists>m. fetchRealVideoMetadata sample_JSON_parse
         (Returns (Some (350, Fulfilled (Response (Some one_size_text)))))
         ''https://vimeo.com/123'' = Some (350, Fulfilled m) \<and>
       estimatedSizes m = JObject ?sizes1 \<and>
       get_prop (estimatedSizes m) ''2160p'' = Inr None \<and>
       get_prop (estimatedSizes m) ''1080p'' = Inr (Some (JString ''150MB'')) \<and>
       get_prop (estimatedSizes m) ''720p'' = Inr None \<and>
       get_prop (estimatedSizes m) ''360p'' = Inr None \<and>
       get_prop (estimatedSizes m) ''audio'' = Inr None"
    by (rule exI [of _ m1])
      (intro conjI r1 s1 trans [OF ka1 arg_cong [where f = Inr, OF va1]] trans [OF kb1 arg_cong [where f = Inr, OF vb1]]
        trans [OF kc1 arg_cong [where f = Inr, OF vc1]] trans [OF kd1 arg_cong [where f = Inr, OF vd1]]
        trans [OF ke1 arg_cong [where f = Inr, OF ve1]])
  show ?thesis by (intro conjI t p first p1 second)
qed

section \<open>The shape of every result\<close>

text \<open>
  Claim C3, as stated, fails: for a payload whose estimatedSizes is
  \<^verbatim>\<open>{"1080p":"150MB"}\<close>, the example of the prompt, the result has that object as
  its estimatedSizes, in which "2160p" is undefined.
\<close>

theorem one_size_counterexample:
  "fetchRealVideoMetadata sample_JSON_parse
       (Returns (Some (350, Fulfilled (Response (Some one_size_text)))))
       ''https://www.youtube.com/watch?v=x'' =
     Some (350, Fulfilled \<lparr> title = JString ''Big Buck Bunny'',
        author = JString ''Blender'', views = JString ''1000'',
        duration = JString ''9:56'', summary = JString ''A short film.'',
        estimatedSizes = JObject [(''1080p'', JString ''150MB'')] \<rparr>) \<and>
   get_prop (JObject [(''1080p'', JString ''150MB'')]) ''2160p'' = Inr None"
proof -
  let ?data = "JObject
         [(''title'', JString ''Big Buck Bunny''), (''author'', JString ''Blender''),
          (''views'', JString ''1000''), (''duration'', JString ''9:56''),
          (''summary'', JString ''A short film.''),
          (''estimatedSizes'', JObject [(''1080p'', JString ''150MB'')])]"
  have t: "(350::nat) \<le> TIMEOUT_MS" by (simp add: TIMEOUT_MS_def)
  have p: "sample_JSON_parse (text_or_default (Response (Some one_size_text))) = Inr ?data"
    by (simp only: text_or_default_sample sample_parse_one_size)
  have n: "normalize_data ?data ''https://www.youtube.com/watch?v=x'' =
     Inr \<lparr> title = JString ''Big Buck Bunny'',
        author = JString ''Blender'', views = JString ''1000'',
        duration = JString ''9:56'', summary = JString ''A short film.'',
        estimatedSizes = JObject [(''1080p'', JString ''150MB'')] \<rparr>"
    by (simp add: normalize_not_null [OF get_prop_object get_prop_object get_prop_object
          get_prop_object get_prop_object get_prop_object] or_default_def)
  have r: "fetchRealVideoMetadata sample_JSON_parse
       (Returns (Some (350, Fulfilled (Response (Some one_size_text)))))
       ''https://www.youtube.com/watch?v=x'' =
     Some (350, Fulfilled \<lparr> title = JString ''Big Buck Bunny'',
        author = JString ''Blender'', views = JString ''1000'',
        duration = JString ''9:56'', summary = JString ''A short film.'',
        estimatedSizes = JObject [(''1080p'', JString ''150MB'')] \<rparr>)"
    by (rule resolver_success [where response = "Response (Some one_size_text)"
          and data = ?data]) (rule t refl p n)+
  have g: "get_prop (JObject [(''1080p'', JString ''150MB'')]) ''2160p'' = Inr None"
    by (simp add: get_prop_def)
  from r g show ?thesis by blast
qed

text \<open>
  Claim C3, amended. For every URL, every \<^verbatim>\<open>JSON.parse\<close> and every outcome of the AI
  call, the resolver is fulfilled with metadata whose six fields are truthy (not null,
  false, 0 or the empty string), so that none of title, author, views, duration and
  summary is the empty string; and its estimatedSizes is either the fallback table, with
  the five quality keys bound to non-empty strings, or the truthy estimatedSizes of the
  payload of the AI response, returned as it is.
\<close>

theorem result_fields_truthy:
  "\<exists>t m. fetchRealVideoMetadata JSON_parse generateContent url = Some (t, Fulfilled m) \<and>
     truthy (title m) \<and> truthy (author m) \<and> truthy (views m) \<and> truthy (duration m) \<and>
     truthy (summary m) \<and> truthy (estimatedSizes m) \<and>
     title m \<noteq> JString [] \<and> author m \<noteq> JString [] \<and> views m \<noteq> JString [] \<and>
     duration m \<noteq> JString [] \<and> summary m \<noteq> JString [] \<and>
     (estimatedSizes m = JObject
        [(''2160p'', JString ''1.4 GB''), (''1080p'', JString ''450 MB''),
         (''720p'', JString ''210 MB''), (''360p'', JString ''65 MB''),
         (''audio'', JString ''8.5 MB'')] \<or>
      (\<exists>t' response data.
         generateContent = Returns (Some (t', Fulfilled response)) \<and>
         JSON_parse (text_or_default response) = Inr data \<and>
         get_prop data ''estimatedSizes'' = Inr (Some (estimatedSizes m))))"
proof -
  let ?fb = "getFallbackMetadata url"
  have fb: "truthy (title ?fb) \<and> truthy (author ?fb) \<and> truthy (views ?fb) \<and>
     truthy (duration ?fb) \<and> truthy (summary ?fb) \<and> truthy (estimatedSizes ?fb)"
    using fallback_truthy [of url] by simp
  note fbs = truthy_strings [OF fb]
  from resolver_cases [of JSON_parse generateContent url] show ?thesis
  proof (elim disjE exE conjE)
    assume r: "fetchRealVideoMetadata JSON_parse generateContent url =
      Some (TIMEOUT_MS, Fulfilled ?fb)"
    show ?thesis
      by (rule exI [of _ TIMEOUT_MS], rule exI [of _ ?fb])
        (simp only: r fb fbs fallback_sizes truthy.simps simp_thms)
  next
    fix t assume r: "fetchRealVideoMetadata JSON_parse generateContent url =
      Some (t, Fulfilled ?fb)"
    show ?thesis
      by (rule exI [of _ t], rule exI [of _ ?fb])
        (simp only: r fb fbs fallback_sizes truthy.simps simp_thms)
  next
    fix t response data m
    assume g: "generateContent = Returns (Some (t, Fulfilled response))"
      and p: "JSON_parse (text_or_default response) = Inr data"
      and n: "normalize_data data url = Inr m"
      and r: "fetchRealVideoMetadata JSON_parse generateContent url = Some (t, Fulfilled m)"
    note good = normalize_truthy [OF n]
    note strs = truthy_strings [OF good]
    from normalize_sizes [OF n] fallback_sizes [of url]
    have "estimatedSizes m = JObject
        [(''2160p'', JString ''1.4 GB''), (''1080p'', JString ''450 MB''),
         (''720p'', JString ''210 MB''), (''360p'', JString ''65 MB''),
         (''audio'', JString ''8.5 MB'')] \<or>
      get_prop data ''estimatedSizes'' = Inr (Some (estimatedSizes m))" by simp
    with g p have sizes: "estimatedSizes m = JObject
        [(''2160p'', JString ''1.4 GB''), (''1080p'', JString ''450 MB''),
         (''720p'', JString ''210 MB''), (''360p'', JString ''65 MB''),
         (''audio'', JString ''8.5 MB'')] \<or>
      (\<exists>t' response data.
         generateContent = Returns (Some (t', Fulfilled response)) \<and>
         JSON_parse (text_or_default response) = Inr data \<and>
         get_prop data ''estimatedSizes'' = Inr (Some (estimatedSizes m)))" by blast
    show ?thesis
      by (rule exI [of _ t], rule exI [of _ m]) (intro conjI r sizes, insert good strs, simp_all)
  qed
qed

end
